theory Spec2Isabelle
  imports Main "HOL-Library.AList"
begin

section \<open>JavaScript values\<close>

text \<open>
  The client handles values of type \<^verbatim>\<open>any\<close>: request bodies, parsed JSON
  responses, the fields of an error body. They are modelled by \<open>jsval\<close>.  Numbers are
  integers (instants in milliseconds, lifetimes in seconds, HTTP status codes), in the
  range in which JavaScript's doubles are exact; a run in which a number is not an integer
  (a fraction, an infinity, \<^verbatim>\<open>NaN\<close>) is outside the model.
  Strings are byte lists (UTF-8).  An object is the list of its own properties.
\<close>

datatype jsval =
    JUndefined
  | JNull
  | JBool bool
  | JNum int
  | JStr string
  | JArr "jsval list"
  | JObj "(string \<times> jsval) list"

text \<open>Truthiness, as tested by \<^verbatim>\<open>if (v)\<close>, \<^verbatim>\<open>!v\<close> and \<^verbatim>\<open>v || w\<close>.\<close>

fun truthy :: "jsval \<Rightarrow> bool" where
  "truthy JUndefined = False"
| "truthy JNull = False"
| "truthy (JBool b) = b"
| "truthy (JNum n) = (n \<noteq> 0)"
| "truthy (JStr s) = (s \<noteq> [])"
| "truthy (JArr xs) = True"
| "truthy (JObj kvs) = True"

text \<open>\<^verbatim>\<open>a || b\<close> on values.\<close>

definition js_or :: "jsval \<Rightarrow> jsval \<Rightarrow> jsval" where
  "js_or a b = (if truthy a then a else b)"

text \<open>
  \<^verbatim>\<open>s || d\<close> where \<open>s\<close> is an optional string (\<^verbatim>\<open>string | undefined\<close>) and
  \<open>d\<close> a string: the empty string is falsy, as is the missing one.
\<close>

definition str_or :: "string option \<Rightarrow> string \<Rightarrow> string" where
  "str_or s d = (case s of None \<Rightarrow> d | Some t \<Rightarrow> if t = [] then d else t)"

text \<open>\<^verbatim>\<open>n || d\<close> where \<open>n\<close> is an optional number: zero is falsy, as is the missing one.\<close>

definition num_or :: "int option \<Rightarrow> int \<Rightarrow> int" where
  "num_or n d = (case n of None \<Rightarrow> d | Some k \<Rightarrow> if k = 0 then d else k)"

text \<open>
  Reading a property \<^verbatim>\<open>v.k\<close>.  On \<^verbatim>\<open>null\<close> and \<^verbatim>\<open>undefined\<close> it
  throws a TypeError (\<open>None\<close>); on an object it is the property or \<^verbatim>\<open>undefined\<close>; on
  any other value it is \<^verbatim>\<open>undefined\<close> for the keys the client reads
  (\<^verbatim>\<open>message\<close>, \<^verbatim>\<open>error\<close>), none of which is on a prototype.
\<close>

fun get_prop :: "jsval \<Rightarrow> string \<Rightarrow> jsval option" where
  "get_prop JUndefined k = None"
| "get_prop JNull k = None"
| "get_prop (JObj kvs) k = (case map_of kvs k of None \<Rightarrow> Some JUndefined | Some v \<Rightarrow> Some v)"
| "get_prop v k = Some JUndefined"

subsection \<open>Printing a status code\<close>

text \<open>
  \<^verbatim>\<open>${response.status}\<close>: the decimal digits of an HTTP status code (three digits on
  the wire).
\<close>

definition digit_char :: "nat \<Rightarrow> char" where
  "digit_char d = char_of (48 + d)"

function show_nat :: "nat \<Rightarrow> string" where
  "show_nat n = (if n < 10 then [digit_char n] else show_nat (n div 10) @ [digit_char (n mod 10)])"
  by pat_completeness auto
termination
  by (relation "measure (\<lambda>n. n)") auto

declare show_nat.simps [simp del]

section \<open>Errors and promises\<close>

text \<open>
  A thrown \<^verbatim>\<open>Error\<close> object: the client reads its \<^verbatim>\<open>name\<close> and its
  \<^verbatim>\<open>message\<close>.  \<^verbatim>\<open>new Error(m)\<close> has the name \<^verbatim>\<open>Error\<close>.
\<close>

datatype js_error = JsError (err_name: string) (err_message: string)

definition new_Error :: "string \<Rightarrow> js_error" where
  "new_Error m = JsError ''Error'' m"

text \<open>How an awaited promise settles.\<close>

datatype 'a settled = Rejected js_error | Resolved 'a

section \<open>Configuration and construction\<close>

text \<open>
  Modelled from the spec: the declaration of \<^verbatim>\<open>StackSpotConfig\<close> (in
  \<^verbatim>\<open>./types\<close>) is not among the sources.  Its fields are those the constructor
  reads; each may be missing, \<open>'te\<close> is the type of the tool executor.
\<close>

record 'te StackSpotConfig =
  cfg_clientId :: "string option"
  cfg_clientSecret :: "string option"
  cfg_realm :: "string option"
  cfg_baseURL :: "string option"
  cfg_inferenceBaseURL :: "string option"
  cfg_timeout :: "int option"
  cfg_toolExecutor :: "'te option"
  cfg_enableFunctionCalling :: "bool option"

record 'te InternalConfig =
  clientId :: string
  clientSecret :: string
  realm :: string
  baseURL :: string
  inferenceBaseURL :: string
  timeout :: int
  toolExecutor :: "'te option"
  enableFunctionCalling :: "bool option"

text \<open>The fields of a \<^verbatim>\<open>StackSpotClient\<close>; \<open>accessToken\<close> is \<^verbatim>\<open>string | null\<close>.\<close>

record 'te StackSpotClient =
  config :: "'te InternalConfig"
  accessToken :: "string option"
  tokenExpiresAt :: int

text \<open>The message of the constructor's error, in UTF-8.\<close>

definition credentials_required :: string where
  "credentials_required =
     ''clientId e clientSecret s'' @ [char_of (0xC3::nat), char_of (0xA3::nat)] @
     ''o obrigat'' @ [char_of (0xC3::nat), char_of (0xB3::nat)] @ ''rios''"

text \<open>
  \<^verbatim>\<open>new StackSpotClient(config)\<close>: the defaults are applied with \<^verbatim>\<open>||\<close>, then
  \<^verbatim>\<open>!clientId || !clientSecret\<close> throws.
\<close>

definition constructor :: "'te StackSpotConfig \<Rightarrow> js_error + 'te StackSpotClient" where
  "constructor cfg =
     (case cfg_clientId cfg of
        None \<Rightarrow> Inl (new_Error credentials_required)
      | Some cid \<Rightarrow>
          (case cfg_clientSecret cfg of
             None \<Rightarrow> Inl (new_Error credentials_required)
           | Some secret \<Rightarrow>
               if cid = [] \<or> secret = [] then Inl (new_Error credentials_required)
               else Inr \<lparr> config = \<lparr>
                            clientId = cid,
                            clientSecret = secret,
                            realm = str_or (cfg_realm cfg) ''stackspot-freemium'',
                            baseURL = str_or (cfg_baseURL cfg) ''https://idm.stackspot.com'',
                            inferenceBaseURL = str_or (cfg_inferenceBaseURL cfg)
                              ''https://genai-inference-app.stackspot.com'',
                            timeout = num_or (cfg_timeout cfg) 30000,
                            toolExecutor = cfg_toolExecutor cfg,
                            enableFunctionCalling = cfg_enableFunctionCalling cfg \<rparr>,
                          accessToken = None,
                          tokenExpiresAt = 0 \<rparr>))"

section \<open>The outside world\<close>

text \<open>
  What \<^verbatim>\<open>fetch\<close> is called with.  A body is the caller's value passed through, the
  text \<^verbatim>\<open>JSON.stringify\<close> gives for a value, or the text
  \<^verbatim>\<open>URLSearchParams.toString\<close> gives for the appended pairs; \<open>signal_timeout\<close> is
  the delay of the abort signal, if there is one.
\<close>

datatype fetch_body =
    PassedThrough jsval
  | Stringified jsval
  | FormEncoded "(string \<times> string) list"

record fetch_call =
  url :: string
  http_method :: string
  headers :: "(string \<times> string) list"
  body :: "fetch_body option"
  signal_timeout :: "int option"

text \<open>
  A response of \<^verbatim>\<open>node-fetch\<close>: \<open>text_result\<close> is how \<^verbatim>\<open>response.text()\<close>
  settles, and \<^verbatim>\<open>response.ok\<close> holds for the statuses 200 to 299.
\<close>

record http_response =
  status :: nat
  statusText :: string
  text_result :: "string settled"

definition ok :: "'a http_response_scheme \<Rightarrow> bool" where
  "ok r = (200 \<le> status r \<and> status r < 300)"

text \<open>
  Modelled from the spec: the declaration of \<^verbatim>\<open>TokenResponse\<close> (in
  \<^verbatim>\<open>./types\<close>) is not among the sources; the spec gives it as
  \<^verbatim>\<open>{ access_token: string, expires_in?: number }\<close>.
\<close>

record TokenResponse =
  access_token :: string
  expires_in :: "int option"

text \<open>
  The cast \<^verbatim>\<open>as TokenResponse\<close> is not checked.  The parsed body either has the
  declared type (\<open>Typed\<close>), or it has a token and, as \<^verbatim>\<open>expires_in\<close>, some value the
  declaration does not allow (\<open>IllTyped\<close>, with the token and that value).
\<close>

datatype token_json = Typed TokenResponse | IllTyped string jsval

text \<open>
  The response of the token endpoint: \<open>json_result\<close> is how
  \<^verbatim>\<open>response.json() as TokenResponse\<close> settles.  It is rejected when the body cannot
  be read or is not JSON; a body that parses to \<^verbatim>\<open>null\<close> counts as rejected too, with
  the TypeError that reading \<^verbatim>\<open>data.access_token\<close> then throws, since nothing
  happens between the two.
\<close>

record token_http_response = http_response +
  json_result :: "token_json settled"

text \<open>
  One run of the client against its environment: what each call to the platform gives,
  in the order of the source.
  \<^item> \<open>now_check\<close>: \<^verbatim>\<open>Date.now()\<close> in \<^verbatim>\<open>getAccessToken\<close>;
  \<^item> \<open>token_fetch\<close>: how the \<^verbatim>\<open>fetch\<close> of the token endpoint settles;
  \<^item> \<open>now_store\<close>: \<^verbatim>\<open>Date.now()\<close> in \<^verbatim>\<open>refreshToken\<close>, when the token is stored;
  \<^item> \<open>ToNumber\<close>: the conversion to a number that \<^verbatim>\<open>*\<close> applies to an operand that
    is not a number, or the TypeError it throws (as it does for an object whose own
    \<^verbatim>\<open>toString\<close> is not a function);
  \<^item> \<open>signal_error\<close>: the error \<^verbatim>\<open>AbortSignal.timeout(ms)\<close> throws, if it does
    (a delay out of range);
  \<^item> \<open>api_fetch\<close>: how the \<^verbatim>\<open>fetch\<close> of the resource API settles, under the
    signal it was given;
  \<^item> \<open>api_duration\<close>: how many milliseconds the fetch and the reading of the body that
    \<^verbatim>\<open>request\<close> awaits take when nothing aborts them;
  \<^item> \<open>JSON_parse\<close>: \<^verbatim>\<open>JSON.parse\<close>, \<open>None\<close> when it throws;
  \<^item> \<open>ToString\<close>: the conversion to a string that \<^verbatim>\<open>new Error(v)\<close> applies to a
    value that is not a string, or the TypeError it throws (for the same objects).
\<close>

record env =
  now_check :: int
  token_fetch :: "token_http_response settled"
  now_store :: int
  ToNumber :: "jsval \<Rightarrow> js_error + int"
  signal_error :: "int \<Rightarrow> js_error option"
  api_fetch :: "http_response settled"
  api_duration :: int
  JSON_parse :: "string \<Rightarrow> jsval option"
  ToString :: "jsval \<Rightarrow> js_error + string"

section \<open>The token manager\<close>

text \<open>
  The calls to \<^verbatim>\<open>sdkLogger\<close> are left out: the logger queues its writes on a
  promise chain whose failures it swallows, so a call neither throws nor touches the client.

  The operand of \<^verbatim>\<open>* 1000\<close> as a number: a number is itself, any other value is
  converted by the platform.
\<close>

definition to_number :: "env \<Rightarrow> jsval \<Rightarrow> js_error + int" where
  "to_number e v = (case v of JNum n \<Rightarrow> Inr n | _ \<Rightarrow> ToNumber e v)"

text \<open>
  The \<^verbatim>\<open>try\<close> block of \<^verbatim>\<open>refreshToken\<close>.  It returns the client as it is
  when the block ends, normally or by a throw; the two fields are assigned one after the
  other, as in the source.  With a reply of the declared type the product cannot throw;
  with an ill-typed \<^verbatim>\<open>expires_in\<close> it can, and the token is stored by then.
\<close>

definition refreshToken_try ::
  "env \<Rightarrow> 'te StackSpotClient \<Rightarrow> (js_error + unit) \<times> 'te StackSpotClient" where
  "refreshToken_try e c =
     (case token_fetch e of
        Rejected err \<Rightarrow> (Inl err, c)
      | Resolved response \<Rightarrow>
          if \<not> ok response then
            (case text_result response of
               Rejected err \<Rightarrow> (Inl err, c)
             | Resolved errorText \<Rightarrow>
                 (Inl (new_Error (''Erro ao obter token: '' @ show_nat (status response) @ '' '' @
                         statusText response @ '' - '' @ errorText)), c))
          else
            (case json_result response of
               Rejected err \<Rightarrow> (Inl err, c)
             | Resolved (Typed data) \<Rightarrow>
                 (let c1 = c\<lparr>accessToken := Some (access_token data)\<rparr>;
                      c2 = c1\<lparr>tokenExpiresAt := now_store e + num_or (expires_in data) 3600 * 1000\<rparr>
                  in (Inr (), c2))
             | Resolved (IllTyped token lifetime) \<Rightarrow>
                 (let c1 = c\<lparr>accessToken := Some token\<rparr> in
                  case to_number e (js_or lifetime (JNum 3600)) of
                    Inl err \<Rightarrow> (Inl err, c1)
                  | Inr seconds \<Rightarrow>
                      (Inr (), c1\<lparr>tokenExpiresAt := now_store e + seconds * 1000\<rparr>))))"

text \<open>The request \<^verbatim>\<open>refreshToken\<close> sends to the token endpoint.\<close>

definition token_call :: "'te StackSpotClient \<Rightarrow> fetch_call" where
  "token_call c =
     (let tokenURL = baseURL (config c) @ ''/'' @ realm (config c) @ ''/oidc/oauth/token'';
          formData = [(''grant_type'', ''client_credentials''),
                      (''client_id'', clientId (config c)),
                      (''client_secret'', clientSecret (config c))]
      in \<lparr> url = tokenURL,
           http_method = ''POST'',
           headers = [(''Content-Type'', ''application/x-www-form-urlencoded''),
                      (''User-Agent'', ''StackSpot-SDK/1.0.0'')],
           body = Some (FormEncoded formData),
           signal_timeout = None \<rparr>)"

text \<open>
  \<^verbatim>\<open>refreshToken\<close>: the result, the client afterwards and the calls to \<^verbatim>\<open>fetch\<close>
  it made.  The \<^verbatim>\<open>catch\<close> wraps whatever the block threw.
\<close>

definition refreshToken ::
  "env \<Rightarrow> 'te StackSpotClient \<Rightarrow> (js_error + unit) \<times> 'te StackSpotClient \<times> fetch_call list" where
  "refreshToken e c =
     (case refreshToken_try e c of
        (Inl error, c') \<Rightarrow>
          (Inl (new_Error (''Falha ao autenticar: '' @ err_message error)), c', [token_call c])
      | (Inr u, c') \<Rightarrow> (Inr (), c', [token_call c]))"

text \<open>\<^verbatim>\<open>this.accessToken && ...\<close>: \<^verbatim>\<open>null\<close> and the empty string are falsy.\<close>

definition token_truthy :: "string option \<Rightarrow> bool" where
  "token_truthy t = (case t of None \<Rightarrow> False | Some s \<Rightarrow> s \<noteq> [])"

text \<open>
  \<^verbatim>\<open>getAccessToken\<close>.  It returns \<^verbatim>\<open>this.accessToken\<close> (at run time the
  \<^verbatim>\<open>!\<close> of \<^verbatim>\<open>this.accessToken!\<close> is erased).
\<close>

definition getAccessToken ::
  "env \<Rightarrow> 'te StackSpotClient \<Rightarrow>
     (js_error + string option) \<times> 'te StackSpotClient \<times> fetch_call list" where
  "getAccessToken e c =
     (let now = now_check e in
      if token_truthy (accessToken c) \<and> tokenExpiresAt c > now + 5 * 60 * 1000 then
        (Inr (accessToken c), c, [])
      else
        (case refreshToken e c of
           (Inl error, c', sent) \<Rightarrow> (Inl error, c', sent)
         | (Inr u, c', sent) \<Rightarrow> (Inr (accessToken c'), c', sent)))"

section \<open>The request dispatcher\<close>

text \<open>
  The \<^verbatim>\<open>options\<close> of a request; a missing \<^verbatim>\<open>body\<close> is \<^verbatim>\<open>undefined\<close>.
\<close>

record request_options =
  opt_body :: jsval
  opt_headers :: "(string \<times> string) list option"
  opt_baseURL :: "string option"
  opt_stream :: "bool option"

text \<open>The object \<^verbatim>\<open>{}\<close>, the default of the parameter \<^verbatim>\<open>options\<close>.\<close>

definition no_options :: request_options where
  "no_options = \<lparr> opt_body = JUndefined, opt_headers = None, opt_baseURL = None, opt_stream = None \<rparr>"

text \<open>
  What \<^verbatim>\<open>request\<close> returns: the parsed body or the raw text (a string value), or, in
  streaming mode, the response itself.
\<close>

datatype request_result = Value jsval | LiveResponse http_response

text \<open>\<^verbatim>\<open>{ ...a, ...b }\<close> on header records; a missing \<open>b\<close> adds nothing.\<close>

definition spread :: "(string \<times> string) list \<Rightarrow> (string \<times> string) list option \<Rightarrow> (string \<times> string) list" where
  "spread a b = (case b of None \<Rightarrow> a | Some kvs \<Rightarrow> fold (\<lambda>(k, v). AList.update k v) kvs a)"

text \<open>\<^verbatim>\<open>`Bearer ${token}`\<close>.\<close>

definition bearer :: "string option \<Rightarrow> string" where
  "bearer token = ''Bearer '' @ (case token of None \<Rightarrow> ''null'' | Some t \<Rightarrow> t)"

text \<open>
  The \<^verbatim>\<open>fetchOptions\<close> and the URL: method, headers and signal, and a body only
  under \<^verbatim>\<open>if (options.body)\<close>.
\<close>

definition request_body :: "request_options \<Rightarrow> fetch_body option" where
  "request_body options =
     (if truthy (opt_body options) then
        (if opt_stream options = Some True then Some (PassedThrough (opt_body options))
         else Some (Stringified (opt_body options)))
      else None)"

definition api_call ::
  "'te StackSpotClient \<Rightarrow> string option \<Rightarrow> string \<Rightarrow> string \<Rightarrow> request_options \<Rightarrow> fetch_call" where
  "api_call c token method path options =
     \<lparr> url = str_or (opt_baseURL options) (inferenceBaseURL (config c)) @ path,
       http_method = method,
       headers = spread [(''Authorization'', bearer token),
                         (''Content-Type'', ''application/json''),
                         (''User-Agent'', ''StackSpot-SDK/1.0.0'')] (opt_headers options),
       body = request_body options,
       signal_timeout = Some (timeout (config c)) \<rparr>"

text \<open>
  The value of \<^verbatim>\<open>errorMessage\<close> for a response that is not \<^verbatim>\<open>ok\<close>.  The inner
  \<^verbatim>\<open>try\<close> throws when \<^verbatim>\<open>JSON.parse\<close> throws and when the parsed value is
  \<^verbatim>\<open>null\<close> (reading \<^verbatim>\<open>.message\<close> of it); its \<^verbatim>\<open>catch\<close> falls back to
  the text.  A field of the parsed body is any value, not only a string.
\<close>

definition error_message_try :: "env \<Rightarrow> string \<Rightarrow> string \<Rightarrow> jsval option" where
  "error_message_try e errorText errorMessage =
     (case JSON_parse e errorText of
        None \<Rightarrow> None
      | Some errorJson \<Rightarrow>
          (case get_prop errorJson ''message'' of
             None \<Rightarrow> None
           | Some m \<Rightarrow>
               if truthy m then Some m
               else (case get_prop errorJson ''error'' of
                       None \<Rightarrow> None
                     | Some er \<Rightarrow> Some (js_or er (JStr errorMessage)))))"

definition error_message :: "env \<Rightarrow> http_response \<Rightarrow> string \<Rightarrow> jsval" where
  "error_message e response errorText =
     (let errorMessage = ''HTTP '' @ show_nat (status response) @ '': '' @ statusText response in
      case error_message_try e errorText errorMessage of
        Some v \<Rightarrow> v
      | None \<Rightarrow> JStr (if errorText = [] then errorMessage else errorText))"

text \<open>
  The message \<^verbatim>\<open>new Error(v)\<close> gets: a string is itself, any other value is converted
  by the platform, which may throw instead.
\<close>

definition String_of :: "env \<Rightarrow> jsval \<Rightarrow> js_error + string" where
  "String_of e v = (case v of JStr s \<Rightarrow> Inr s | _ \<Rightarrow> ToString e v)"

text \<open>The \<^verbatim>\<open>try\<close> block of \<^verbatim>\<open>request\<close>, from the \<^verbatim>\<open>fetch\<close> on.\<close>

definition request_try :: "env \<Rightarrow> request_options \<Rightarrow> js_error + request_result" where
  "request_try e options =
     (case api_fetch e of
        Rejected err \<Rightarrow> Inl err
      | Resolved response \<Rightarrow>
          if \<not> ok response then
            (case text_result response of
               Rejected err \<Rightarrow> Inl err
             | Resolved errorText \<Rightarrow>
                 (case String_of e (error_message e response errorText) of
                    Inl err \<Rightarrow> Inl err
                  | Inr message \<Rightarrow> Inl (new_Error message)))
          else if opt_stream options = Some True then Inr (LiveResponse response)
          else
            (case text_result response of
               Rejected err \<Rightarrow> Inl err
             | Resolved responseText \<Rightarrow>
                 (case JSON_parse e responseText of
                    None \<Rightarrow> Inr (Value (JStr responseText))
                  | Some parsedResponse \<Rightarrow> Inr (Value parsedResponse))))"

text \<open>The \<^verbatim>\<open>catch\<close> of \<^verbatim>\<open>request\<close>.\<close>

definition request_catch :: "js_error \<Rightarrow> js_error" where
  "request_catch error =
     (if err_name error = ''AbortError'' then new_Error ''Request timeout'' else error)"

text \<open>
  \<^verbatim>\<open>request\<close>: the result, the client afterwards and the calls to \<^verbatim>\<open>fetch\<close> made,
  in order.  The token and the signal are obtained before the \<^verbatim>\<open>try\<close>.
\<close>

definition request ::
  "env \<Rightarrow> 'te StackSpotClient \<Rightarrow> string \<Rightarrow> string \<Rightarrow> request_options option \<Rightarrow>
     (js_error + request_result) \<times> 'te StackSpotClient \<times> fetch_call list" where
  "request e c method path options_arg =
     (let options = (case options_arg of None \<Rightarrow> no_options | Some opts \<Rightarrow> opts) in
      case getAccessToken e c of
        (Inl error, c', sent) \<Rightarrow> (Inl error, c', sent)
      | (Inr token, c', sent) \<Rightarrow>
          (case signal_error e (timeout (config c')) of
             Some error \<Rightarrow> (Inl error, c', sent)
           | None \<Rightarrow>
               (case request_try e options of
                  Inl error \<Rightarrow>
                    (Inl (request_catch error), c', sent @ [api_call c' token method path options])
                | Inr r \<Rightarrow> (Inr r, c', sent @ [api_call c' token method path options]))))"

subsection \<open>The timeout signal\<close>

text \<open>
  The operations \<^verbatim>\<open>request\<close> awaits in its \<^verbatim>\<open>try\<close> block, the fetch and the
  reading of the body, were cut short by a rejection named \<^verbatim>\<open>AbortError\<close>.
\<close>

definition aborted :: "env \<Rightarrow> request_options \<Rightarrow> bool" where
  "aborted e options =
     (case api_fetch e of
        Rejected err \<Rightarrow> err_name err = ''AbortError''
      | Resolved response \<Rightarrow>
          if ok response \<and> opt_stream options = Some True then False
          else (case text_result response of
                  Rejected err \<Rightarrow> err_name err = ''AbortError''
                | Resolved t \<Rightarrow> False))"

text \<open>
  What \<^verbatim>\<open>node-fetch\<close> does with the signal of a call: when the delay of the signal
  is shorter than the operations take, they are aborted.  A call without a signal is never
  aborted.
\<close>

definition honours_signal :: "env \<Rightarrow> fetch_call \<Rightarrow> request_options \<Rightarrow> bool" where
  "honours_signal e call options =
     (case signal_timeout call of
        None \<Rightarrow> True
      | Some ms \<Rightarrow> ms < api_duration e \<longrightarrow> aborted e options)"

subsection \<open>The verb wrappers\<close>

text \<open>\<^verbatim>\<open>{ ...options, body }\<close>; spreading \<^verbatim>\<open>undefined\<close> gives no property.\<close>

definition with_body :: "request_options option \<Rightarrow> jsval \<Rightarrow> request_options" where
  "with_body options b =
     (case options of None \<Rightarrow> no_options | Some opts \<Rightarrow> opts)\<lparr>opt_body := b\<rparr>"

definition get ::
  "env \<Rightarrow> 'te StackSpotClient \<Rightarrow> string \<Rightarrow> request_options option \<Rightarrow>
     (js_error + request_result) \<times> 'te StackSpotClient \<times> fetch_call list" where
  "get e c path options = request e c ''GET'' path options"

definition post ::
  "env \<Rightarrow> 'te StackSpotClient \<Rightarrow> string \<Rightarrow> jsval \<Rightarrow> request_options option \<Rightarrow>
     (js_error + request_result) \<times> 'te StackSpotClient \<times> fetch_call list" where
  "post e c path b options = request e c ''POST'' path (Some (with_body options b))"

definition put ::
  "env \<Rightarrow> 'te StackSpotClient \<Rightarrow> string \<Rightarrow> jsval \<Rightarrow> request_options option \<Rightarrow>
     (js_error + request_result) \<times> 'te StackSpotClient \<times> fetch_call list" where
  "put e c path b options = request e c ''PUT'' path (Some (with_body options b))"

definition delete ::
  "env \<Rightarrow> 'te StackSpotClient \<Rightarrow> string \<Rightarrow> request_options option \<Rightarrow>
     (js_error + request_result) \<times> 'te StackSpotClient \<times> fetch_call list" where
  "delete e c path options = request e c ''DELETE'' path options"

section \<open>Example values\<close>

text \<open>A configured client, token endpoint replies and environments for the examples below.\<close>

definition only_credentials :: "string option \<Rightarrow> string option \<Rightarrow> unit StackSpotConfig" where
  "only_credentials cid secret =
     \<lparr> cfg_clientId = cid, cfg_clientSecret = secret, cfg_realm = None, cfg_baseURL = None,
       cfg_inferenceBaseURL = None, cfg_timeout = None, cfg_toolExecutor = None,
       cfg_enableFunctionCalling = None \<rparr>"

definition demo_config :: "unit InternalConfig" where
  "demo_config =
     \<lparr> clientId = ''my-client'', clientSecret = ''my-secret'',
       realm = ''stackspot-freemium'', baseURL = ''https://idm.stackspot.com'',
       inferenceBaseURL = ''https://genai-inference-app.stackspot.com'', timeout = 30000,
       toolExecutor = None, enableFunctionCalling = None \<rparr>"

definition fresh_client :: "unit StackSpotClient" where
  "fresh_client = \<lparr> config = demo_config, accessToken = None, tokenExpiresAt = 0 \<rparr>"

definition cached_client :: "unit StackSpotClient" where
  "cached_client = \<lparr> config = demo_config, accessToken = Some ''tok'', tokenExpiresAt = 2000000 \<rparr>"

text \<open>The token endpoint answers 200 with the token \<^verbatim>\<open>abc\<close> and the given lifetime.\<close>

definition token_reply :: "int option \<Rightarrow> token_http_response" where
  "token_reply lifetime =
     \<lparr> status = 200, statusText = ''OK'', text_result = Resolved [],
       json_result = Resolved (Typed \<lparr> access_token = ''abc'', expires_in = lifetime \<rparr>) \<rparr>"

text \<open>
  The token endpoint answers 200 with the token \<^verbatim>\<open>abc\<close> and, as lifetime, a value
  that is not a number.
\<close>

definition ill_typed_reply :: "jsval \<Rightarrow> token_http_response" where
  "ill_typed_reply lifetime =
     \<lparr> status = 200, statusText = ''OK'', text_result = Resolved [],
       json_result = Resolved (IllTyped ''abc'' lifetime) \<rparr>"

text \<open>The token endpoint answers 401.\<close>

definition token_refused :: token_http_response where
  "token_refused =
     \<lparr> status = 401, statusText = ''Unauthorized'', text_result = Resolved ''invalid_client'',
       json_result = Rejected (JsError ''FetchError'' ''invalid json response body'') \<rparr>"

text \<open>The resource API answers with the given status, reason and body text.\<close>

definition api_reply :: "nat \<Rightarrow> string \<Rightarrow> string \<Rightarrow> http_response" where
  "api_reply code reason txt = \<lparr> status = code, statusText = reason, text_result = Resolved txt \<rparr>"

definition unreachable :: "'a settled" where
  "unreachable = Rejected (JsError ''FetchError'' ''unreachable'')"

text \<open>The TypeError of a conversion.\<close>

definition cannot_convert :: js_error where
  "cannot_convert = JsError ''TypeError'' ''Cannot convert object to primitive value''"

text \<open>
  An environment whose clock reads 1000000 at both readings, where a signal can be made,
  with the given outcomes of the two fetches and the given table for \<^verbatim>\<open>JSON.parse\<close>
  (a text outside the table does not parse).  Its conversions throw: the examples convert
  only objects whose own \<^verbatim>\<open>toString\<close> is not a function.
\<close>

definition demo_env ::
  "token_http_response settled \<Rightarrow> http_response settled \<Rightarrow> (string \<rightharpoonup> jsval) \<Rightarrow> env" where
  "demo_env tf af parse =
     \<lparr> now_check = 1000000, token_fetch = tf, now_store = 1000000,
       ToNumber = (\<lambda>v. Inl cannot_convert), signal_error = (\<lambda>ms. None), api_fetch = af,
       api_duration = 0, JSON_parse = parse, ToString = (\<lambda>v. Inl cannot_convert) \<rparr>"

section \<open>Construction\<close>

lemma constructor_missing:
  assumes "cfg_clientId cfg = None \<or> cfg_clientId cfg = Some [] \<or>
      cfg_clientSecret cfg = None \<or> cfg_clientSecret cfg = Some []"
  shows "constructor cfg = Inl (new_Error credentials_required)"
  using assms by (auto simp: constructor_def split: option.splits)

lemma constructor_given:
  assumes "cfg_clientId cfg = Some cid" and "cid \<noteq> []"
    and "cfg_clientSecret cfg = Some secret" and "secret \<noteq> []"
  shows "constructor cfg =
     Inr \<lparr> config = \<lparr>
              clientId = cid,
              clientSecret = secret,
              realm = str_or (cfg_realm cfg) ''stackspot-freemium'',
              baseURL = str_or (cfg_baseURL cfg) ''https://idm.stackspot.com'',
              inferenceBaseURL = str_or (cfg_inferenceBaseURL cfg)
                ''https://genai-inference-app.stackspot.com'',
              timeout = num_or (cfg_timeout cfg) 30000,
              toolExecutor = cfg_toolExecutor cfg,
              enableFunctionCalling = cfg_enableFunctionCalling cfg \<rparr>,
            accessToken = None,
            tokenExpiresAt = 0 \<rparr>"
  using assms by (simp add: constructor_def)

text \<open>
  C4, as amended.  Construction fails, with the error for missing credentials, if and only
  if the client identifier or the client secret is absent or the empty string.  When both
  are non-empty it succeeds: the client holds them, no token, and for realm, the two base
  URLs and the timeout the configured value, or the default where that value is absent or
  falsy (the empty string, a timeout of zero).
\<close>

theorem constructor_requires_credentials:
  "((\<exists>err. constructor cfg = Inl err) \<longleftrightarrow>
      cfg_clientId cfg = None \<or> cfg_clientId cfg = Some [] \<or>
      cfg_clientSecret cfg = None \<or> cfg_clientSecret cfg = Some []) \<and>
   (\<forall>err. constructor cfg = Inl err \<longrightarrow> err = JsError ''Error'' credentials_required) \<and>
   (\<forall>c. constructor cfg = Inr c \<longrightarrow>
      cfg_clientId cfg = Some (clientId (config c)) \<and>
      cfg_clientSecret cfg = Some (clientSecret (config c)) \<and>
      realm (config c) =
        (case cfg_realm cfg of None \<Rightarrow> ''stackspot-freemium''
         | Some r \<Rightarrow> if r = [] then ''stackspot-freemium'' else r) \<and>
      baseURL (config c) =
        (case cfg_baseURL cfg of None \<Rightarrow> ''https://idm.stackspot.com''
         | Some u \<Rightarrow> if u = [] then ''https://idm.stackspot.com'' else u) \<and>
      inferenceBaseURL (config c) =
        (case cfg_inferenceBaseURL cfg of None \<Rightarrow> ''https://genai-inference-app.stackspot.com''
         | Some u \<Rightarrow> if u = [] then ''https://genai-inference-app.stackspot.com'' else u) \<and>
      timeout (config c) =
        (case cfg_timeout cfg of None \<Rightarrow> 30000 | Some t \<Rightarrow> if t = 0 then 30000 else t) \<and>
      toolExecutor (config c) = cfg_toolExecutor cfg \<and>
      enableFunctionCalling (config c) = cfg_enableFunctionCalling cfg \<and>
      accessToken c = None \<and> tokenExpiresAt c = 0)"
proof -
  consider (missing) "cfg_clientId cfg = None \<or> cfg_clientId cfg = Some [] \<or>
      cfg_clientSecret cfg = None \<or> cfg_clientSecret cfg = Some []"
    | (given) cid secret where "cfg_clientId cfg = Some cid" "cid \<noteq> []"
        "cfg_clientSecret cfg = Some secret" "secret \<noteq> []"
    by (cases "cfg_clientId cfg"; cases "cfg_clientSecret cfg") auto
  then show ?thesis
  proof cases
    case missing
    then show ?thesis using constructor_missing [of cfg] by (auto simp: new_Error_def)
  next
    case given
    have d: "str_or s x = (case s of None \<Rightarrow> x | Some r \<Rightarrow> if r = [] then x else r)" for s x
      by (simp add: str_or_def)
    have n: "num_or (cfg_timeout cfg) 30000 =
        (case cfg_timeout cfg of None \<Rightarrow> 30000 | Some t \<Rightarrow> if t = 0 then 30000 else t)"
      by (simp add: num_or_def)
    from given show ?thesis
      unfolding constructor_given [OF given] d n by simp
  qed
qed

theorem constructor_requires_credentials_witness:
  "constructor (only_credentials (Some ''my-client'') (Some ''my-secret'')) = Inr fresh_client"
  using constructor_requires_credentials [of "only_credentials (Some ''my-client'') (Some ''my-secret'')"]
  by (simp add: constructor_def only_credentials_def fresh_client_def demo_config_def
      str_or_def num_or_def)

text \<open>
  The claim as stated fails where the identifier is given as the empty string: both
  credentials are present and construction fails.
\<close>

theorem constructor_empty_identifier_counterexample:
  "cfg_clientId (only_credentials (Some []) (Some ''my-secret'')) \<noteq> None \<and>
   cfg_clientSecret (only_credentials (Some []) (Some ''my-secret'')) \<noteq> None \<and>
   constructor (only_credentials (Some []) (Some ''my-secret'')) =
     Inl (JsError ''Error'' credentials_required)"
  by (simp add: constructor_def only_credentials_def new_Error_def)

section \<open>Token refresh\<close>

lemma num_or_cases:
  "num_or n d = (case n of None \<Rightarrow> d | Some k \<Rightarrow> if k = 0 then d else k)"
  by (simp add: num_or_def)

lemma refreshToken_success:
  assumes "token_fetch e = Resolved response" and "ok response"
    and "json_result response = Resolved (Typed data)"
  shows "refreshToken e c =
     (Inr (), c\<lparr>accessToken := Some (access_token data),
                tokenExpiresAt := now_store e + num_or (expires_in data) 3600 * 1000\<rparr>,
      [token_call c])"
  using assms by (simp add: refreshToken_def refreshToken_try_def Let_def)

lemma refreshToken_failure:
  assumes "(\<exists>err. token_fetch e = Rejected err) \<or>
     (\<exists>response. token_fetch e = Resolved response \<and>
        (\<not> ok response \<or> (\<exists>err. json_result response = Rejected err)))"
  shows "\<exists>err. refreshToken e c = (Inl err, c, [token_call c])"
  using assms
  by (auto simp: refreshToken_def refreshToken_try_def Let_def split: settled.splits)

lemma refreshToken_ill_typed_converted:
  assumes "token_fetch e = Resolved response" and "ok response"
    and "json_result response = Resolved (IllTyped token lifetime)"
    and "to_number e (js_or lifetime (JNum 3600)) = Inr seconds"
  shows "refreshToken e c =
     (Inr (), c\<lparr>accessToken := Some token, tokenExpiresAt := now_store e + seconds * 1000\<rparr>,
      [token_call c])"
  using assms by (simp add: refreshToken_def refreshToken_try_def Let_def)

lemma refreshToken_ill_typed_thrown:
  assumes "token_fetch e = Resolved response" and "ok response"
    and "json_result response = Resolved (IllTyped token lifetime)"
    and "to_number e (js_or lifetime (JNum 3600)) = Inl cause"
  shows "refreshToken e c =
     (Inl (new_Error (''Falha ao autenticar: '' @ err_message cause)),
      c\<lparr>accessToken := Some token\<rparr>, [token_call c])"
  using assms by (simp add: refreshToken_def refreshToken_try_def Let_def)

lemma refreshToken_sent: "snd (snd (refreshToken e c)) = [token_call c]"
  by (simp add: refreshToken_def split: prod.splits sum.splits)

lemma ok_token_reply: "ok (token_reply lifetime)"
  by (simp add: ok_def token_reply_def)

lemma ok_ill_typed_reply: "ok (ill_typed_reply lifetime)"
  by (simp add: ok_def ill_typed_reply_def)

lemma show_nat_401: "show_nat 401 = ''401''"
  by code_simp

text \<open>
  C3, as amended.  When the token endpoint answers with a success status and a body that
  parses, \<open>refreshToken\<close> stores the returned \<open>access_token\<close> and sets the expiry to the
  instant of storing plus \<open>expires_in * 1000\<close> milliseconds, where \<open>expires_in\<close> counts as 3600
  when the field is absent or zero.
\<close>

theorem refreshToken_stores_token_and_expiry:
  assumes "token_fetch e = Resolved response" and "ok response"
    and "json_result response = Resolved (Typed data)"
  shows "\<exists>c'. refreshToken e c = (Inr (), c', [token_call c]) \<and>
      accessToken c' = Some (access_token data) \<and>
      tokenExpiresAt c' =
        now_store e +
        (case expires_in data of None \<Rightarrow> 3600 | Some n \<Rightarrow> if n = 0 then 3600 else n) * 1000"
  using refreshToken_success [OF assms, of c]
  by (simp add: num_or_cases)

theorem refreshToken_stores_token_and_expiry_witness:
  "\<exists>c'. refreshToken (demo_env (Resolved (token_reply (Some 7200))) unreachable Map.empty)
           fresh_client = (Inr (), c', [token_call fresh_client]) \<and>
        accessToken c' = Some ''abc'' \<and> tokenExpiresAt c' = 1000000 + 7200 * 1000"
  using refreshToken_stores_token_and_expiry
    [of "demo_env (Resolved (token_reply (Some 7200))) unreachable Map.empty"
        "token_reply (Some 7200)" "\<lparr> access_token = ''abc'', expires_in = Some 7200 \<rparr>" fresh_client]
  by (simp add: demo_env_def ok_token_reply) (simp add: token_reply_def)

text \<open>
  The claim as stated fails for a response with \<open>expires_in = 0\<close>: the stored expiry is
  one hour after the instant of storing, not that instant plus \<open>0 * 1000\<close>.
\<close>

theorem refreshToken_zero_lifetime_counterexample:
  "expires_in \<lparr> access_token = ''abc'', expires_in = Some 0 \<rparr> = Some 0 \<and>
   tokenExpiresAt (fst (snd (refreshToken
       (demo_env (Resolved (token_reply (Some 0))) unreachable Map.empty) fresh_client)))
     = 4600000 \<and>
   (4600000::int) \<noteq>
     now_store (demo_env (Resolved (token_reply (Some 0))) unreachable Map.empty) + 0 * 1000"
  by (simp add: refreshToken_def refreshToken_try_def demo_env_def token_reply_def ok_def
      fresh_client_def num_or_def)

text \<open>
  C5, as amended.  Every execution of \<open>refreshToken\<close> ends in one of these ways.  The call
  succeeds and the client is the one before with both fields overwritten from the response
  (a success status and a body that parses).  Or the fetch was rejected, the status was not
  a success or the body could not be read or parsed, the call fails and the client is
  exactly the one before.  Or, the one partial update, the body parsed but its
  \<open>expires_in\<close> is a value that cannot be converted to a number: the call fails with the token
  replaced and the expiry as before.
\<close>

theorem refreshToken_all_or_nothing:
  "(\<exists>response data. token_fetch e = Resolved response \<and> ok response \<and>
        json_result response = Resolved (Typed data) \<and>
        refreshToken e c =
          (Inr (), c\<lparr>accessToken := Some (access_token data),
                     tokenExpiresAt := now_store e +
                       (case expires_in data of None \<Rightarrow> 3600 | Some n \<Rightarrow> if n = 0 then 3600 else n) * 1000\<rparr>,
           [token_call c]))
   \<or> (\<exists>response token lifetime seconds. token_fetch e = Resolved response \<and> ok response \<and>
        json_result response = Resolved (IllTyped token lifetime) \<and>
        to_number e (js_or lifetime (JNum 3600)) = Inr seconds \<and>
        refreshToken e c =
          (Inr (), c\<lparr>accessToken := Some token, tokenExpiresAt := now_store e + seconds * 1000\<rparr>,
           [token_call c]))
   \<or> (\<exists>err. refreshToken e c = (Inl err, c, [token_call c]) \<and>
        ((\<exists>cause. token_fetch e = Rejected cause) \<or>
         (\<exists>response. token_fetch e = Resolved response \<and>
            (\<not> ok response \<or> (\<exists>cause. json_result response = Rejected cause)))))
   \<or> (\<exists>response token lifetime cause. token_fetch e = Resolved response \<and> ok response \<and>
        json_result response = Resolved (IllTyped token lifetime) \<and>
        to_number e (js_or lifetime (JNum 3600)) = Inl cause \<and>
        refreshToken e c =
          (Inl (JsError ''Error'' (''Falha ao autenticar: '' @ err_message cause)),
           c\<lparr>accessToken := Some token\<rparr>, [token_call c]))"
proof (cases "token_fetch e")
  case (Rejected cause)
  then show ?thesis using refreshToken_failure [of e c] by auto
next
  case (Resolved response)
  show ?thesis
  proof (cases "ok response")
    case False
    with Resolved show ?thesis using refreshToken_failure [of e c] by auto
  next
    case True
    show ?thesis
    proof (cases "json_result response")
      case (Rejected cause)
      with Resolved show ?thesis using refreshToken_failure [of e c] by auto
    next
      case parsed: (Resolved reply)
      show ?thesis
      proof (cases reply)
        case (Typed data)
        with parsed have body: "json_result response = Resolved (Typed data)" by simp
        from refreshToken_success [OF Resolved True body, of c] Resolved True body
        show ?thesis by (auto simp: num_or_cases)
      next
        case (IllTyped token lifetime)
        with parsed have body: "json_result response = Resolved (IllTyped token lifetime)"
          by simp
        show ?thesis
        proof (cases "to_number e (js_or lifetime (JNum 3600))")
          case (Inl cause)
          from refreshToken_ill_typed_thrown [OF Resolved True body Inl, of c] Resolved True body Inl
          show ?thesis by (auto simp: new_Error_def)
        next
          case (Inr seconds)
          from refreshToken_ill_typed_converted [OF Resolved True body Inr, of c]
            Resolved True body Inr
          show ?thesis by auto
        qed
      qed
    qed
  qed
qed

theorem refreshToken_all_or_nothing_witness:
  "refreshToken (demo_env (Resolved token_refused) unreachable Map.empty) cached_client =
     (Inl (JsError ''Error''
        ''Falha ao autenticar: Erro ao obter token: 401 Unauthorized - invalid_client''),
      cached_client, [token_call cached_client]) \<and>
   refreshToken (demo_env (Resolved (token_reply (Some 3600))) unreachable Map.empty) cached_client =
     (Inr (), cached_client\<lparr>accessToken := Some ''abc'', tokenExpiresAt := 4600000\<rparr>,
      [token_call cached_client])"
  using refreshToken_all_or_nothing
      [of "demo_env (Resolved token_refused) unreachable Map.empty" cached_client]
    refreshToken_all_or_nothing
      [of "demo_env (Resolved (token_reply (Some 3600))) unreachable Map.empty" cached_client]
  by (simp add: demo_env_def token_refused_def token_reply_def ok_def refreshToken_def
      refreshToken_try_def new_Error_def show_nat_401 num_or_def)

text \<open>
  The claim as stated fails for a reply \<^verbatim>\<open>{"access_token": "abc", "expires_in":
  {"toString": 1}}\<close>: multiplying that lifetime throws a TypeError after the token has been
  stored, so the call fails with the token replaced and the expiry as it was.
\<close>

theorem refreshToken_partial_update_counterexample:
  "refreshToken
     (demo_env (Resolved (ill_typed_reply (JObj [(''toString'', JNum 1)]))) unreachable Map.empty)
     cached_client =
     (Inl (JsError ''Error'' ''Falha ao autenticar: Cannot convert object to primitive value''),
      cached_client\<lparr>accessToken := Some ''abc''\<rparr>, [token_call cached_client]) \<and>
   accessToken (cached_client\<lparr>accessToken := Some ''abc''\<rparr>) \<noteq> accessToken cached_client \<and>
   tokenExpiresAt (cached_client\<lparr>accessToken := Some ''abc''\<rparr>) = tokenExpiresAt cached_client"
  by (simp add: refreshToken_def refreshToken_try_def demo_env_def ill_typed_reply_def ok_def
      to_number_def js_or_def cannot_convert_def new_Error_def cached_client_def)

text \<open>
  C9.  A successful response whose \<open>expires_in\<close> is zero is treated as one without the field:
  the stored expiry is the instant of storing plus 3600 * 1000 milliseconds, and the whole
  outcome is that of the same run with the field absent.
\<close>

theorem refreshToken_zero_expires_in_as_absent:
  assumes "token_fetch e = Resolved response" and "ok response"
    and "json_result response = Resolved (Typed data)" and "expires_in data = Some 0"
  shows "tokenExpiresAt (fst (snd (refreshToken e c))) = now_store e + 3600 * 1000 \<and>
    refreshToken e c =
      refreshToken (e\<lparr>token_fetch :=
        Resolved (response\<lparr>json_result := Resolved (Typed (data\<lparr>expires_in := None\<rparr>))\<rparr>)\<rparr>) c"
proof
  show "tokenExpiresAt (fst (snd (refreshToken e c))) = now_store e + 3600 * 1000"
    using refreshToken_success [OF assms(1-3), of c] assms(4) by (simp add: num_or_def)
  have "ok (response\<lparr>json_result := Resolved (Typed (data\<lparr>expires_in := None\<rparr>))\<rparr>)"
    using assms(2) by (simp add: ok_def)
  then have "refreshToken (e\<lparr>token_fetch :=
        Resolved (response\<lparr>json_result := Resolved (Typed (data\<lparr>expires_in := None\<rparr>))\<rparr>)\<rparr>) c =
      (Inr (), c\<lparr>accessToken := Some (access_token data),
                 tokenExpiresAt := now_store e + 3600 * 1000\<rparr>, [token_call c])"
    by (simp add: refreshToken_def refreshToken_try_def num_or_def)
  then show "refreshToken e c =
      refreshToken (e\<lparr>token_fetch :=
        Resolved (response\<lparr>json_result := Resolved (Typed (data\<lparr>expires_in := None\<rparr>))\<rparr>)\<rparr>) c"
    using refreshToken_success [OF assms(1-3), of c] assms(4) by (simp add: num_or_def)
qed

theorem refreshToken_zero_expires_in_as_absent_witness:
  "tokenExpiresAt (fst (snd (refreshToken
       (demo_env (Resolved (token_reply (Some 0))) unreachable Map.empty) fresh_client))) =
     1000000 + 3600 * 1000 \<and>
   refreshToken (demo_env (Resolved (token_reply (Some 0))) unreachable Map.empty) fresh_client =
     refreshToken (demo_env (Resolved (token_reply None)) unreachable Map.empty) fresh_client"
proof -
  let ?e = "demo_env (Resolved (token_reply (Some 0))) unreachable Map.empty"
  let ?data = "\<lparr> access_token = ''abc'', expires_in = Some 0 \<rparr>"
  have fetch: "token_fetch ?e = Resolved (token_reply (Some 0))"
    by (simp add: demo_env_def)
  have body: "json_result (token_reply (Some 0)) = Resolved (Typed ?data)"
    by (simp add: token_reply_def)
  have zero: "expires_in ?data = Some 0"
    by simp
  have absent: "?e\<lparr>token_fetch := Resolved (token_reply (Some 0)
      \<lparr>json_result := Resolved (Typed (?data\<lparr>expires_in := None\<rparr>))\<rparr>)\<rparr> =
      demo_env (Resolved (token_reply None)) unreachable Map.empty"
    by (simp add: demo_env_def token_reply_def)
  have clock: "now_store ?e = 1000000"
    by (simp add: demo_env_def)
  show ?thesis
    using refreshToken_zero_expires_in_as_absent [OF fetch ok_token_reply body zero, of fresh_client]
    unfolding absent clock .
qed

section \<open>Token reuse\<close>

lemma getAccessToken_cached:
  assumes "token_truthy (accessToken c)" and "now_check e + 300000 < tokenExpiresAt c"
  shows "getAccessToken e c = (Inr (accessToken c), c, [])"
  using assms by (simp add: getAccessToken_def Let_def)

lemma getAccessToken_refresh:
  assumes "\<not> (token_truthy (accessToken c) \<and> now_check e + 300000 < tokenExpiresAt c)"
  shows "getAccessToken e c =
     (case refreshToken e c of
        (Inl error, c', sent) \<Rightarrow> (Inl error, c', sent)
      | (Inr u, c', sent) \<Rightarrow> (Inr (accessToken c'), c', sent))"
  using assms by (auto simp add: getAccessToken_def Let_def)

lemma getAccessToken_sent:
  "snd (snd (getAccessToken e c)) =
     (if token_truthy (accessToken c) \<and> now_check e + 300000 < tokenExpiresAt c then []
      else [token_call c])"
proof (cases "token_truthy (accessToken c) \<and> now_check e + 300000 < tokenExpiresAt c")
  case True
  then show ?thesis by (simp add: getAccessToken_cached)
next
  case False
  obtain r c' sent where rt: "refreshToken e c = (r, c', sent)"
    by (cases "refreshToken e c") auto
  with refreshToken_sent [of e c] have "sent = [token_call c]" by simp
  with False rt show ?thesis
    by (cases r) (simp_all add: getAccessToken_refresh)
qed

text \<open>
  C2, as amended.  \<open>getAccessToken\<close> makes no call to the token endpoint if and only if the
  cached token is a non-empty string and its expiry is more than 5 minutes after the
  current time, and it then returns the cached token and leaves the client as it is.
  Otherwise it refreshes: when the refresh succeeds it returns the token just stored,
  whatever the lifetime the endpoint gave it, and when the refresh fails it fails with the
  error of the refresh.  So a token returned without a refresh has its expiry more than 5
  minutes after the current time.
\<close>

theorem getAccessToken_cache_or_refresh:
  "(snd (snd (getAccessToken e c)) = [] \<longleftrightarrow>
      token_truthy (accessToken c) \<and> now_check e + 5 * 60 * 1000 < tokenExpiresAt c) \<and>
   (token_truthy (accessToken c) \<and> now_check e + 5 * 60 * 1000 < tokenExpiresAt c \<longrightarrow>
      getAccessToken e c = (Inr (accessToken c), c, [])) \<and>
   (\<not> (token_truthy (accessToken c) \<and> now_check e + 5 * 60 * 1000 < tokenExpiresAt c) \<longrightarrow>
      (\<forall>response data.
         token_fetch e = Resolved response \<and> ok response \<and>
         json_result response = Resolved (Typed data) \<longrightarrow>
         getAccessToken e c =
           (Inr (Some (access_token data)),
            c\<lparr>accessToken := Some (access_token data),
              tokenExpiresAt := now_store e +
                (case expires_in data of None \<Rightarrow> 3600 | Some n \<Rightarrow> if n = 0 then 3600 else n) * 1000\<rparr>,
            [token_call c])) \<and>
      (\<forall>c' sent. refreshToken e c = (Inr (), c', sent) \<longrightarrow>
         getAccessToken e c = (Inr (accessToken c'), c', [token_call c])) \<and>
      (\<forall>err c' sent. refreshToken e c = (Inl err, c', sent) \<longrightarrow>
         getAccessToken e c = (Inl err, c', [token_call c]))) \<and>
   (snd (snd (getAccessToken e c)) = [] \<longrightarrow>
      now_check e + 5 * 60 * 1000 < tokenExpiresAt (fst (snd (getAccessToken e c))))"
proof (intro conjI impI allI)
  show "snd (snd (getAccessToken e c)) = [] \<longleftrightarrow>
      token_truthy (accessToken c) \<and> now_check e + 5 * 60 * 1000 < tokenExpiresAt c"
    by (simp add: getAccessToken_sent)
next
  assume "snd (snd (getAccessToken e c)) = []"
  then have "token_truthy (accessToken c) \<and> now_check e + 300000 < tokenExpiresAt c"
    by (simp add: getAccessToken_sent split: if_splits)
  then show "now_check e + 5 * 60 * 1000 < tokenExpiresAt (fst (snd (getAccessToken e c)))"
    by (simp add: getAccessToken_cached)
next
  assume "token_truthy (accessToken c) \<and> now_check e + 5 * 60 * 1000 < tokenExpiresAt c"
  then show "getAccessToken e c = (Inr (accessToken c), c, [])"
    by (simp add: getAccessToken_cached)
next
  fix response data
  assume stale: "\<not> (token_truthy (accessToken c) \<and> now_check e + 5 * 60 * 1000 < tokenExpiresAt c)"
    and "token_fetch e = Resolved response \<and> ok response \<and>
      json_result response = Resolved (Typed data)"
  then have r: "token_fetch e = Resolved response" "ok response"
      "json_result response = Resolved (Typed data)"
    by simp_all
  from stale refreshToken_success [OF r, of c]
  show "getAccessToken e c =
           (Inr (Some (access_token data)),
            c\<lparr>accessToken := Some (access_token data),
              tokenExpiresAt := now_store e +
                (case expires_in data of None \<Rightarrow> 3600 | Some n \<Rightarrow> if n = 0 then 3600 else n) * 1000\<rparr>,
            [token_call c])"
    by (simp add: getAccessToken_refresh num_or_cases)
next
  fix c' sent
  assume stale: "\<not> (token_truthy (accessToken c) \<and> now_check e + 5 * 60 * 1000 < tokenExpiresAt c)"
    and stored: "refreshToken e c = (Inr (), c', sent)"
  from refreshToken_sent [of e c] stored have "sent = [token_call c]" by simp
  with stale stored show "getAccessToken e c = (Inr (accessToken c'), c', [token_call c])"
    by (simp add: getAccessToken_refresh)
next
  fix err c' sent
  assume stale: "\<not> (token_truthy (accessToken c) \<and> now_check e + 5 * 60 * 1000 < tokenExpiresAt c)"
    and failed: "refreshToken e c = (Inl err, c', sent)"
  from refreshToken_sent [of e c] failed have "sent = [token_call c]" by simp
  with stale failed show "getAccessToken e c = (Inl err, c', [token_call c])"
    by (simp add: getAccessToken_refresh)
qed

theorem getAccessToken_cache_or_refresh_witness:
  "getAccessToken (demo_env unreachable unreachable Map.empty) cached_client =
     (Inr (Some ''tok''), cached_client, [])"
  using getAccessToken_cache_or_refresh
    [of "demo_env unreachable unreachable Map.empty" cached_client]
  by (simp add: demo_env_def cached_client_def token_truthy_def)

text \<open>
  The claim as stated fails for a token endpoint that gives a lifetime of 60 seconds: the
  token is handed out although its expiry is within 5 minutes of the current time.
\<close>

theorem getAccessToken_short_lifetime_counterexample:
  "getAccessToken (demo_env (Resolved (token_reply (Some 60))) unreachable Map.empty) fresh_client =
     (Inr (Some ''abc''), fresh_client\<lparr>accessToken := Some ''abc'', tokenExpiresAt := 1060000\<rparr>,
      [token_call fresh_client]) \<and>
   \<not> (now_store (demo_env (Resolved (token_reply (Some 60))) unreachable Map.empty) + 5 * 60 * 1000
        < (1060000::int))"
  by (simp add: getAccessToken_def refreshToken_def refreshToken_try_def demo_env_def
      token_reply_def ok_def fresh_client_def num_or_def token_truthy_def)

section \<open>Requests\<close>

lemma show_nat_400: "show_nat 400 = ''400''"
  by code_simp

lemma request_dispatch:
  assumes "getAccessToken e c = (Inr token, c', sent)"
    and "signal_error e (timeout (config c')) = None"
    and "options = (case options_arg of None \<Rightarrow> no_options | Some opts \<Rightarrow> opts)"
  shows "request e c method path options_arg =
     (case request_try e options of
        Inl error \<Rightarrow> Inl (request_catch error)
      | Inr r \<Rightarrow> Inr r,
      c', sent @ [api_call c' token method path options])"
  using assms by (simp add: request_def Let_def split: sum.splits)

lemma request_try_not_ok:
  assumes "api_fetch e = Resolved response" and "\<not> ok response"
    and "text_result response = Resolved errorText"
  shows "request_try e options =
     (case String_of e (error_message e response errorText) of
        Inl err \<Rightarrow> Inl err
      | Inr message \<Rightarrow> Inl (new_Error message))"
  using assms by (simp add: request_try_def)

lemma request_not_ok:
  assumes "getAccessToken e c = (Inr token, c', sent)"
    and "signal_error e (timeout (config c')) = None"
    and "api_fetch e = Resolved response" and "\<not> ok response"
    and "text_result response = Resolved errorText"
  shows "fst (request e c method path options_arg) =
     (case String_of e (error_message e response errorText) of
        Inl err \<Rightarrow> Inl (if err_name err = ''AbortError'' then JsError ''Error'' ''Request timeout''
                        else err)
      | Inr message \<Rightarrow> Inl (JsError ''Error'' message))"
  using request_dispatch [OF assms(1,2) refl, of "method" "path" "options_arg"]
    request_try_not_ok [OF assms(3-5)]
  by (simp add: request_catch_def new_Error_def split: sum.splits)

lemma request_catch_new_Error: "request_catch (new_Error m) = new_Error m"
  by (simp add: request_catch_def new_Error_def)

lemma show_nat_504: "show_nat 504 = ''504''"
  by code_simp

lemma cached_client_token:
  "getAccessToken (demo_env tf af parse) cached_client = (Inr (Some ''tok''), cached_client, [])"
  by (simp add: getAccessToken_def demo_env_def cached_client_def token_truthy_def)

lemma demo_env_signal: "signal_error (demo_env tf af parse) ms = None"
  by (simp add: demo_env_def)

lemma demo_env_api_fetch: "api_fetch (demo_env tf af parse) = af"
  by (simp add: demo_env_def)

lemma demo_env_JSON_parse: "JSON_parse (demo_env tf af parse) = parse"
  by (simp add: demo_env_def)

lemma error_message_unparsed:
  assumes "JSON_parse e errorText = None \<or>
      (\<exists>v. JSON_parse e errorText = Some v \<and> get_prop v ''message'' = None)"
  shows "error_message e response errorText =
     JStr (if errorText = [] then ''HTTP '' @ show_nat (status response) @ '': '' @ statusText response
           else errorText)"
  using assms by (auto simp: error_message_def error_message_try_def Let_def)

lemma error_message_message:
  assumes "JSON_parse e errorText = Some v" and "get_prop v ''message'' = Some m" and "truthy m"
  shows "error_message e response errorText = m"
  using assms by (simp add: error_message_def error_message_try_def Let_def)

lemma error_message_error:
  assumes "JSON_parse e errorText = Some v" and "get_prop v ''message'' = Some m" and "\<not> truthy m"
    and "get_prop v ''error'' = Some er" and "truthy er"
  shows "error_message e response errorText = er"
  using assms by (simp add: error_message_def error_message_try_def Let_def js_or_def)

lemma error_message_generic:
  assumes "JSON_parse e errorText = Some v" and "get_prop v ''message'' = Some m" and "\<not> truthy m"
    and "get_prop v ''error'' = Some er" and "\<not> truthy er"
  shows "error_message e response errorText =
     JStr (''HTTP '' @ show_nat (status response) @ '': '' @ statusText response)"
  using assms by (simp add: error_message_def error_message_try_def Let_def js_or_def)

lemma String_of_JStr: "String_of e (JStr s) = Inr s"
  by (simp add: String_of_def)

lemma request_try_ok:
  assumes "api_fetch e = Resolved response" and "ok response"
    and "opt_stream options \<noteq> Some True"
    and "text_result response = Resolved responseText"
  shows "request_try e options =
     Inr (Value (case JSON_parse e responseText of
                   None \<Rightarrow> JStr responseText | Some parsedResponse \<Rightarrow> parsedResponse))"
  using assms by (simp add: request_try_def split: option.splits)

lemma request_try_rejected:
  assumes "api_fetch e = Rejected err \<or>
      (\<exists>response. api_fetch e = Resolved response \<and> text_result response = Rejected err \<and>
         (ok response \<longrightarrow> opt_stream options \<noteq> Some True))"
  shows "request_try e options = Inl err"
  using assms by (auto simp: request_try_def)

lemma aborted_request_try:
  assumes "aborted e options"
  shows "\<exists>err. request_try e options = Inl err \<and> err_name err = ''AbortError''"
  using assms
  by (auto simp: aborted_def request_try_def split: settled.splits if_splits)

lemma refreshToken_config: "config (fst (snd (refreshToken e c))) = config c"
  by (simp add: refreshToken_def refreshToken_try_def Let_def
      split: settled.splits token_json.splits sum.splits)

lemma getAccessToken_config:
  assumes "getAccessToken e c = (r, c', sent)"
  shows "config c' = config c"
proof (cases "token_truthy (accessToken c) \<and> now_check e + 300000 < tokenExpiresAt c")
  case True
  with assms show ?thesis by (simp add: getAccessToken_cached)
next
  case False
  obtain r0 c0 sent0 where rt: "refreshToken e c = (r0, c0, sent0)"
    by (cases "refreshToken e c") auto
  with refreshToken_config [of e c] have "config c0 = config c" by simp
  with False rt assms show ?thesis
    by (cases r0) (auto simp: getAccessToken_refresh)
qed

lemma falsy_values:
  "\<not> truthy v \<longleftrightarrow> v = JUndefined \<or> v = JNull \<or> v = JNum 0 \<or> v = JBool False \<or> v = JStr []"
  by (cases v) auto

text \<open>
  C1, as amended.  When the resource API answers with a status that is not a success and a
  body text that can be read, \<open>request\<close> fails, and the message of its error is derived
  from the text.  If the text parses as JSON to a value other than \<^verbatim>\<open>null\<close>: the
  \<^verbatim>\<open>message\<close> field if it is truthy, else the \<^verbatim>\<open>error\<close> field if it is truthy,
  else the string \<^verbatim>\<open>HTTP <status>: <statusText>\<close>.  A field that is a string is the
  message as it is; a field that is another value is converted to a string, and where that
  conversion throws, \<open>request\<close> fails with the error thrown by the conversion instead.
  If the parse fails, or gives \<^verbatim>\<open>null\<close>: the raw text, or that generic string when the
  text is empty.  In particular a body that parses to \<^verbatim>\<open>{"message": "bad request"}\<close>
  gives exactly \<^verbatim>\<open>bad request\<close>, and a non-empty body that is not JSON gives the raw text.
\<close>

theorem request_error_message:
  assumes "getAccessToken e c = (Inr token, c', sent)"
    and "signal_error e (timeout (config c')) = None"
    and "api_fetch e = Resolved response" and "\<not> ok response"
    and "text_result response = Resolved errorText"
  shows
    "(\<forall>v m s. JSON_parse e errorText = Some v \<and> get_prop v ''message'' = Some m \<and> truthy m \<and>
        String_of e m = Inr s \<longrightarrow>
        fst (request e c method path options_arg) = Inl (JsError ''Error'' s)) \<and>
     (\<forall>v m er s. JSON_parse e errorText = Some v \<and> get_prop v ''message'' = Some m \<and> \<not> truthy m \<and>
        get_prop v ''error'' = Some er \<and> truthy er \<and> String_of e er = Inr s \<longrightarrow>
        fst (request e c method path options_arg) = Inl (JsError ''Error'' s)) \<and>
     (\<forall>v m er x thrown. JSON_parse e errorText = Some v \<and> get_prop v ''message'' = Some m \<and>
        get_prop v ''error'' = Some er \<and> (if truthy m then x = m else truthy er \<and> x = er) \<and>
        String_of e x = Inl thrown \<longrightarrow>
        fst (request e c method path options_arg) =
          Inl (if err_name thrown = ''AbortError'' then JsError ''Error'' ''Request timeout''
               else thrown)) \<and>
     (\<forall>v m er. JSON_parse e errorText = Some v \<and> get_prop v ''message'' = Some m \<and> \<not> truthy m \<and>
        get_prop v ''error'' = Some er \<and> \<not> truthy er \<longrightarrow>
        fst (request e c method path options_arg) =
          Inl (JsError ''Error''
                 (''HTTP '' @ show_nat (status response) @ '': '' @ statusText response))) \<and>
     (JSON_parse e errorText = None \<or>
      (\<exists>v. JSON_parse e errorText = Some v \<and> get_prop v ''message'' = None) \<longrightarrow>
        fst (request e c method path options_arg) =
          Inl (JsError ''Error''
                 (if errorText = []
                  then ''HTTP '' @ show_nat (status response) @ '': '' @ statusText response
                  else errorText))) \<and>
     (\<forall>v s. JSON_parse e errorText = Some v \<and> get_prop v ''message'' = Some (JStr s) \<and> s \<noteq> [] \<longrightarrow>
        fst (request e c method path options_arg) = Inl (JsError ''Error'' s)) \<and>
     (JSON_parse e errorText = Some (JObj [(''message'', JStr ''bad request'')]) \<longrightarrow>
        fst (request e c method path options_arg) = Inl (JsError ''Error'' ''bad request''))"
proof (intro conjI allI impI)
  note result = request_not_ok [OF assms, of "method" "path" "options_arg"]
  {
    fix v m s
    assume "JSON_parse e errorText = Some v \<and> get_prop v ''message'' = Some m \<and> truthy m \<and>
        String_of e m = Inr s"
    then show "fst (request e c method path options_arg) = Inl (JsError ''Error'' s)"
      using result error_message_message [of e errorText v m response] by simp
  next
    fix v m er s
    assume "JSON_parse e errorText = Some v \<and> get_prop v ''message'' = Some m \<and> \<not> truthy m \<and>
        get_prop v ''error'' = Some er \<and> truthy er \<and> String_of e er = Inr s"
    then show "fst (request e c method path options_arg) = Inl (JsError ''Error'' s)"
      using result error_message_error [of e errorText v m er response] by simp
  next
    fix v m er x thrown
    assume h: "JSON_parse e errorText = Some v \<and> get_prop v ''message'' = Some m \<and>
        get_prop v ''error'' = Some er \<and> (if truthy m then x = m else truthy er \<and> x = er) \<and>
        String_of e x = Inl thrown"
    then have "error_message e response errorText = x"
      using error_message_message [of e errorText v m response]
        error_message_error [of e errorText v m er response]
      by (auto split: if_splits)
    with h show "fst (request e c method path options_arg) =
          Inl (if err_name thrown = ''AbortError'' then JsError ''Error'' ''Request timeout''
               else thrown)"
      using result by simp
  next
    fix v m er
    assume "JSON_parse e errorText = Some v \<and> get_prop v ''message'' = Some m \<and> \<not> truthy m \<and>
        get_prop v ''error'' = Some er \<and> \<not> truthy er"
    then show "fst (request e c method path options_arg) =
          Inl (JsError ''Error''
                 (''HTTP '' @ show_nat (status response) @ '': '' @ statusText response))"
      using result error_message_generic [of e errorText v m er response]
      by (simp add: String_of_JStr)
  next
    assume "JSON_parse e errorText = None \<or>
      (\<exists>v. JSON_parse e errorText = Some v \<and> get_prop v ''message'' = None)"
    then show "fst (request e c method path options_arg) =
          Inl (JsError ''Error''
                 (if errorText = []
                  then ''HTTP '' @ show_nat (status response) @ '': '' @ statusText response
                  else errorText))"
      using result error_message_unparsed [of e errorText response]
      by (simp add: String_of_JStr)
  next
    fix v s
    assume "JSON_parse e errorText = Some v \<and> get_prop v ''message'' = Some (JStr s) \<and> s \<noteq> []"
    then show "fst (request e c method path options_arg) = Inl (JsError ''Error'' s)"
      using result error_message_message [of e errorText v "JStr s" response]
      by (simp add: String_of_JStr)
  next
    assume "JSON_parse e errorText = Some (JObj [(''message'', JStr ''bad request'')])"
    then show "fst (request e c method path options_arg) = Inl (JsError ''Error'' ''bad request'')"
      using result error_message_message [of e errorText "JObj [(''message'', JStr ''bad request'')]"
          "JStr ''bad request''" response]
      by (simp add: String_of_JStr)
  }
qed

theorem request_error_message_witness:
  \<open>fst (request
      (demo_env unreachable (Resolved (api_reply 400 ''Bad Request'' ''{"message": "bad request"}''))
         [''{"message": "bad request"}'' \<mapsto> JObj [(''message'', JStr ''bad request'')]])
      cached_client ''GET'' ''/v1/agents'' None) = Inl (JsError ''Error'' ''bad request'')\<close>
proof -
  let ?r = \<open>api_reply 400 ''Bad Request'' ''{"message": "bad request"}''\<close>
  let ?e = \<open>demo_env unreachable (Resolved ?r)
    [''{"message": "bad request"}'' \<mapsto> JObj [(''message'', JStr ''bad request'')]]\<close>
  have status: "\<not> ok ?r"
    by (simp add: ok_def api_reply_def)
  have body: \<open>text_result ?r = Resolved ''{"message": "bad request"}''\<close>
    by (simp add: api_reply_def)
  have parse: \<open>JSON_parse ?e ''{"message": "bad request"}'' =
      Some (JObj [(''message'', JStr ''bad request'')])\<close>
    by (simp add: demo_env_def)
  have token: "getAccessToken ?e cached_client = (Inr (Some ''tok''), cached_client, [])"
    by (rule cached_client_token)
  have signal: "signal_error ?e (timeout (config cached_client)) = None"
    by (rule demo_env_signal)
  have fetch: "api_fetch ?e = Resolved ?r"
    by (rule demo_env_api_fetch)
  from request_error_message [OF token signal fetch status body, of "''GET''" "''/v1/agents''" None]
  show ?thesis using parse by blast
qed

text \<open>
  The claim as stated fails for the body \<^verbatim>\<open>{}\<close>: it parses, neither field is there, and
  the message is the generic string, not the raw body text.
\<close>

theorem request_error_message_counterexample:
  \<open>JSON_parse (demo_env unreachable (Resolved (api_reply 400 ''Bad Request'' ''{}'')) [''{}'' \<mapsto> JObj []])
      ''{}'' = Some (JObj []) \<and>
   fst (request (demo_env unreachable (Resolved (api_reply 400 ''Bad Request'' ''{}'')) [''{}'' \<mapsto> JObj []])
      cached_client ''GET'' ''/v1/agents'' None) = Inl (JsError ''Error'' ''HTTP 400: Bad Request'') \<and>
   ''HTTP 400: Bad Request'' \<noteq> ''{}''\<close>
proof -
  let ?r = \<open>api_reply 400 ''Bad Request'' ''{}''\<close>
  let ?e = \<open>demo_env unreachable (Resolved ?r) [''{}'' \<mapsto> JObj []]\<close>
  have "request_try ?e no_options = Inl (new_Error ''HTTP 400: Bad Request'')"
    by (simp add: request_try_def demo_env_def api_reply_def ok_def error_message_def
        error_message_try_def js_or_def show_nat_400 String_of_def)
  then show ?thesis
    using request_dispatch [OF cached_client_token demo_env_signal refl, of unreachable "Resolved ?r"
        "[''{}'' \<mapsto> JObj []]" "''GET''" "''/v1/agents''" None]
    by (simp add: request_catch_new_Error demo_env_JSON_parse) (simp add: new_Error_def)
qed

text \<open>
  C6.  When the resource API answers with a success status, the request is not in streaming
  mode and the body text can be read, \<open>request\<close> returns the parsed value if the text parses
  as JSON and the text itself, as a string, if it does not; the body \<^verbatim>\<open>not json\<close> is
  returned as that string.
\<close>

theorem request_success_body:
  assumes "getAccessToken e c = (Inr token, c', sent)"
    and "signal_error e (timeout (config c')) = None"
    and "api_fetch e = Resolved response" and "ok response"
    and "opt_stream (case options_arg of None \<Rightarrow> no_options | Some opts \<Rightarrow> opts) \<noteq> Some True"
    and "text_result response = Resolved responseText"
  shows "(\<forall>parsed. JSON_parse e responseText = Some parsed \<longrightarrow>
            fst (request e c method path options_arg) = Inr (Value parsed)) \<and>
         (JSON_parse e responseText = None \<longrightarrow>
            fst (request e c method path options_arg) = Inr (Value (JStr responseText)))"
  using request_dispatch [OF assms(1,2) refl, of "method" "path" "options_arg"]
    request_try_ok [OF assms(3-6)]
  by simp

theorem request_success_body_witness:
  "fst (request (demo_env unreachable (Resolved (api_reply 200 ''OK'' ''not json'')) Map.empty)
      cached_client ''GET'' ''/v1/agents'' None) = Inr (Value (JStr ''not json''))"
proof -
  let ?r = "api_reply 200 ''OK'' ''not json''"
  let ?e = "demo_env unreachable (Resolved ?r) Map.empty"
  have token: "getAccessToken ?e cached_client = (Inr (Some ''tok''), cached_client, [])"
    by (rule cached_client_token)
  have signal: "signal_error ?e (timeout (config cached_client)) = None"
    by (rule demo_env_signal)
  have fetch: "api_fetch ?e = Resolved ?r"
    by (rule demo_env_api_fetch)
  have status: "ok ?r"
    by (simp add: ok_def api_reply_def)
  have mode: "opt_stream (case None of None \<Rightarrow> no_options | Some opts \<Rightarrow> opts) \<noteq> Some True"
    by (simp add: no_options_def)
  have body: "text_result ?r = Resolved ''not json''"
    by (simp add: api_reply_def)
  have parse: "JSON_parse ?e ''not json'' = None"
    by (simp add: demo_env_def)
  from request_success_body [OF token signal fetch status mode body, of "''GET''" "''/v1/agents''"]
  show ?thesis using parse by simp
qed

text \<open>
  C7, as amended.  The call sent to the resource API carries an abort signal whose delay is
  the configured timeout.  So, on a platform that aborts a call when its signal fires
  first, every request whose fetch and reading of the body take longer than the configured
  timeout fails with an \<^verbatim>\<open>Error\<close> whose message is \<^verbatim>\<open>Request timeout\<close>.  Any
  other transport error, a rejection whose name is not \<^verbatim>\<open>AbortError\<close>, is passed on
  unchanged.
\<close>

theorem request_timeout_error:
  assumes "getAccessToken e c = (Inr token, c', sent)"
    and "signal_error e (timeout (config c')) = None"
    and "options = (case options_arg of None \<Rightarrow> no_options | Some opts \<Rightarrow> opts)"
    and "snd (snd (request e c method path options_arg)) = sent @ [call]"
    and "honours_signal e call options"
  shows "signal_timeout call = Some (timeout (config c)) \<and>
     (timeout (config c) < api_duration e \<longrightarrow>
        fst (request e c method path options_arg) = Inl (JsError ''Error'' ''Request timeout'')) \<and>
     (\<forall>err. (api_fetch e = Rejected err \<or>
             (\<exists>response. api_fetch e = Resolved response \<and> text_result response = Rejected err \<and>
                (ok response \<longrightarrow> opt_stream options \<noteq> Some True))) \<and>
            err_name err \<noteq> ''AbortError'' \<longrightarrow>
        fst (request e c method path options_arg) = Inl err)"
proof (intro conjI impI allI)
  note dispatch = request_dispatch [OF assms(1-3), of "method" "path"]
  have same: "config c' = config c"
    using assms(1) by (rule getAccessToken_config)
  from dispatch assms(4) have call: "call = api_call c' token method path options"
    by simp
  then show signal: "signal_timeout call = Some (timeout (config c))"
    by (simp add: api_call_def same)
  {
    assume "timeout (config c) < api_duration e"
    with signal assms(5) have "aborted e options"
      by (simp add: honours_signal_def)
    then have "\<exists>err. request_try e options = Inl err \<and> err_name err = ''AbortError''"
      by (rule aborted_request_try)
    then show "fst (request e c method path options_arg) = Inl (JsError ''Error'' ''Request timeout'')"
      using dispatch by (auto simp: request_catch_def new_Error_def)
  next
    fix err
    assume "(api_fetch e = Rejected err \<or>
             (\<exists>response. api_fetch e = Resolved response \<and> text_result response = Rejected err \<and>
                (ok response \<longrightarrow> opt_stream options \<noteq> Some True))) \<and>
            err_name err \<noteq> ''AbortError''"
    then have "request_try e options = Inl err" and "err_name err \<noteq> ''AbortError''"
      using request_try_rejected [of e err options] by blast+
    then show "fst (request e c method path options_arg) = Inl err"
      using dispatch by (simp add: request_catch_def)
  }
qed

theorem request_timeout_error_witness:
  "fst (request
      ((demo_env unreachable (Rejected (JsError ''AbortError'' ''The user aborted a request.''))
          Map.empty)\<lparr>api_duration := 31000\<rparr>)
      cached_client ''GET'' ''/v1/agents'' None) = Inl (JsError ''Error'' ''Request timeout'')"
proof -
  let ?e = "(demo_env unreachable (Rejected (JsError ''AbortError'' ''The user aborted a request.''))
         Map.empty)\<lparr>api_duration := 31000\<rparr>"
  let ?call = "api_call cached_client (Some ''tok'') ''GET'' ''/v1/agents'' no_options"
  have token: "getAccessToken ?e cached_client = (Inr (Some ''tok''), cached_client, [])"
    by (simp add: getAccessToken_def demo_env_def cached_client_def token_truthy_def)
  have signal: "signal_error ?e (timeout (config cached_client)) = None"
    by (simp add: demo_env_def)
  have options: "no_options = (case None of None \<Rightarrow> no_options | Some opts \<Rightarrow> opts)"
    by simp
  have trace: "snd (snd (request ?e cached_client ''GET'' ''/v1/agents'' None)) = [] @ [?call]"
    using request_dispatch [OF token signal options, of "''GET''" "''/v1/agents''"] by simp
  have "aborted ?e no_options"
    by (simp add: aborted_def demo_env_def)
  then have platform: "honours_signal ?e ?call no_options"
    by (simp add: honours_signal_def split: option.splits)
  have late: "timeout (config cached_client) < api_duration ?e"
    by (simp add: cached_client_def demo_config_def demo_env_def)
  from request_timeout_error [OF token signal options trace platform] late
  show ?thesis by blast
qed

text \<open>
  The claim as stated fails in its last part: a response 504 whose body is the text
  \<^verbatim>\<open>Request timeout\<close> makes \<open>request\<close> fail with the same message, and nothing timed out.
\<close>

theorem request_timeout_message_counterexample:
  "api_fetch (demo_env unreachable (Resolved (api_reply 504 ''Gateway Timeout'' ''Request timeout''))
       Map.empty) = Resolved (api_reply 504 ''Gateway Timeout'' ''Request timeout'') \<and>
   fst (request (demo_env unreachable (Resolved (api_reply 504 ''Gateway Timeout'' ''Request timeout''))
       Map.empty) cached_client ''GET'' ''/v1/agents'' None) =
     Inl (JsError ''Error'' ''Request timeout'')"
proof -
  let ?r = "api_reply 504 ''Gateway Timeout'' ''Request timeout''"
  let ?e = "demo_env unreachable (Resolved ?r) Map.empty"
  have "request_try ?e no_options = Inl (new_Error ''Request timeout'')"
    by (simp add: request_try_def demo_env_def api_reply_def ok_def error_message_def
        error_message_try_def String_of_def)
  then show ?thesis
    using request_dispatch [OF cached_client_token demo_env_signal refl, of unreachable "Resolved ?r"
        Map.empty "''GET''" "''/v1/agents''" None]
    by (simp add: request_catch_new_Error demo_env_api_fetch) (simp add: new_Error_def)
qed

text \<open>
  C10.  The call sent to the resource API carries no body when \<^verbatim>\<open>options.body\<close> is
  falsy (\<^verbatim>\<open>undefined\<close>, \<^verbatim>\<open>null\<close>, 0, \<^verbatim>\<open>false\<close> or the empty string), in
  streaming mode too.  It carries a body only when the value is truthy: the value itself in
  streaming mode, its JSON text otherwise.
\<close>

theorem request_falsy_body_not_attached:
  assumes "getAccessToken e c = (Inr token, c', sent)"
    and "signal_error e (timeout (config c')) = None"
    and "options = (case options_arg of None \<Rightarrow> no_options | Some opts \<Rightarrow> opts)"
  shows "\<exists>call. snd (snd (request e c method path options_arg)) = sent @ [call] \<and>
     (opt_body options = JUndefined \<or> opt_body options = JNull \<or> opt_body options = JNum 0 \<or>
      opt_body options = JBool False \<or> opt_body options = JStr [] \<longrightarrow> body call = None) \<and>
     (body call \<noteq> None \<longrightarrow> truthy (opt_body options)) \<and>
     (truthy (opt_body options) \<and> opt_stream options = Some True \<longrightarrow>
        body call = Some (PassedThrough (opt_body options))) \<and>
     (truthy (opt_body options) \<and> opt_stream options \<noteq> Some True \<longrightarrow>
        body call = Some (Stringified (opt_body options)))"
proof -
  have "snd (snd (request e c method path options_arg)) =
      sent @ [api_call c' token method path options]"
    using request_dispatch [OF assms] by simp
  moreover have "body (api_call c' token method path options) = request_body options"
    by (simp add: api_call_def)
  ultimately show ?thesis
    using falsy_values [of "opt_body options"]
    by (intro exI [of _ "api_call c' token method path options"]) (auto simp: request_body_def)
qed

theorem request_falsy_body_not_attached_witness:
  "\<exists>call. snd (snd (request (demo_env unreachable (Resolved (api_reply 200 ''OK'' ''[]'')) Map.empty)
        cached_client ''POST'' ''/v1/chat''
        (Some \<lparr> opt_body = JNum 0, opt_headers = None, opt_baseURL = None, opt_stream = Some True \<rparr>)))
      = [call] \<and> body call = None"
proof -
  let ?e = "demo_env unreachable (Resolved (api_reply 200 ''OK'' ''[]'')) Map.empty"
  let ?o = "\<lparr> opt_body = JNum 0, opt_headers = None, opt_baseURL = None, opt_stream = Some True \<rparr>"
  have token: "getAccessToken ?e cached_client = (Inr (Some ''tok''), cached_client, [])"
    by (rule cached_client_token)
  have signal: "signal_error ?e (timeout (config cached_client)) = None"
    by (rule demo_env_signal)
  have options: "?o = (case Some ?o of None \<Rightarrow> no_options | Some opts \<Rightarrow> opts)"
    by simp
  from request_falsy_body_not_attached [OF token signal options, of "''POST''" "''/v1/chat''"]
  show ?thesis by auto
qed

text \<open>
  C8.  Each verb wrapper is the call of \<open>request\<close> with the method fixed: \<open>get\<close> and \<open>delete\<close>
  forward the path and the options, \<open>post\<close> and \<open>put\<close> forward the path and the options with
  \<^verbatim>\<open>body\<close> set to their argument.
\<close>

theorem verb_wrappers_forward_to_request:
  "get e c path options = request e c ''GET'' path options \<and>
   post e c path b options =
     request e c ''POST'' path
       (Some ((case options of None \<Rightarrow> no_options | Some opts \<Rightarrow> opts)\<lparr>opt_body := b\<rparr>)) \<and>
   put e c path b options =
     request e c ''PUT'' path
       (Some ((case options of None \<Rightarrow> no_options | Some opts \<Rightarrow> opts)\<lparr>opt_body := b\<rparr>)) \<and>
   delete e c path options = request e c ''DELETE'' path options"
  by (simp add: get_def post_def put_def delete_def with_body_def)


end
